theory Spec2Isabelle
  imports Complex_Main "HOL-Library.Word"
begin

section \<open>The orders ETL script (src/orders\_etl.py)\<close>

text \<open>
  The script is a linear sequence of dataframe transformations. Every column is
  nullable, so a cell is an \<open>option\<close> value with \<open>None\<close> for SQL NULL. The column
  operators below follow the engine's permissive (non-ANSI) evaluation rules, which the
  script relies on: a comparison or an arithmetic operator with a NULL operand is NULL,
  \<open>&\<close> is three-valued conjunction, \<open>when ... otherwise\<close> takes its first branch only
  when the condition is TRUE, and 32-bit integer arithmetic wraps around.

  Parsing text into typed values, reading the seconds of a timestamp and truncating a
  timestamp to its date are primitives of the engine. They are parameters of the model,
  collected in the record \<open>engine\<close>. The type \<open>'ts\<close> is the engine's timestamp type and
  \<open>'date\<close> its date type. A \<open>double\<close> column is idealised as a real number.
\<close>

subsection \<open>Column operators\<close>

definition sql_eq :: "'a option \<Rightarrow> 'a option \<Rightarrow> bool option" where
  "sql_eq a b = (case a of None \<Rightarrow> None
                 | Some x \<Rightarrow> (case b of None \<Rightarrow> None | Some y \<Rightarrow> Some (x = y)))"

fun sql_and :: "bool option \<Rightarrow> bool option \<Rightarrow> bool option" where
  "sql_and (Some False) _ = Some False"
| "sql_and _ (Some False) = Some False"
| "sql_and (Some True) (Some True) = Some True"
| "sql_and _ _ = None"

definition sql_gt :: "int option \<Rightarrow> int option \<Rightarrow> bool option" where
  "sql_gt a b = (case a of None \<Rightarrow> None
                 | Some x \<Rightarrow> (case b of None \<Rightarrow> None | Some y \<Rightarrow> Some (x > y)))"

definition sql_minus :: "int option \<Rightarrow> int option \<Rightarrow> int option" where
  "sql_minus a b = (case a of None \<Rightarrow> None
                    | Some x \<Rightarrow> (case b of None \<Rightarrow> None | Some y \<Rightarrow> Some (x - y)))"

definition int_times :: "32 word option \<Rightarrow> 32 word option \<Rightarrow> 32 word option" where
  \<comment> \<open>\<open>*\<close> on two \<open>int\<close> columns: the product is an \<open>int\<close> again and wraps around.\<close>
  "int_times a b = (case a of None \<Rightarrow> None
                    | Some x \<Rightarrow> (case b of None \<Rightarrow> None | Some y \<Rightarrow> Some (x * y)))"

definition int_to_long :: "32 word option \<Rightarrow> int option" where
  \<comment> \<open>the implicit widening of an \<open>int\<close> operand that is compared with a \<open>long\<close>\<close>
  "int_to_long a = map_option sint a"

definition double_divide :: "real option \<Rightarrow> real option \<Rightarrow> real option" where
  \<comment> \<open>\<open>/\<close>: both operands are taken as doubles; a zero divisor gives NULL\<close>
  "double_divide a b = (case a of None \<Rightarrow> None
                        | Some x \<Rightarrow> (case b of None \<Rightarrow> None
                                     | Some y \<Rightarrow> if y = 0 then None else Some (x / y)))"

definition when_otherwise :: "bool option \<Rightarrow> 'a option \<Rightarrow> 'a option \<Rightarrow> 'a option" where
  \<comment> \<open>\<open>when(c, v).otherwise(w)\<close>: a FALSE or NULL condition falls through to \<open>w\<close>\<close>
  "when_otherwise c v w = (if c = Some True then v else w)"

subsection \<open>Rows\<close>

record raw_order =
  raw_order_ts :: "string option"
  raw_delivered_ts :: "string option"
  raw_order_value :: "string option"
  raw_promised_mins :: "string option"
  raw_status :: "string option"
  raw_restaurant_id :: "string option"
  raw_city :: "string option"
  raw_other :: "string option list"

record ('ts, 'date) order_row =
  order_ts :: "'ts option"
  delivered_ts :: "'ts option"
  order_value :: "real option"
  promised_mins :: "32 word option"
  status :: "string option"
  o_restaurant_id :: "string option"
  o_city :: "string option"
  o_other :: "string option list"
  late_delivery :: "int option"
  dt :: "'date option"

record restaurant =
  r_restaurant_id :: "string option"
  r_name :: "string option"
  r_cuisine :: "string option"
  r_other :: "string option list"

record ('ts, 'date) engine =
  to_timestamp :: "string \<Rightarrow> 'ts option"
  cast_double :: "string \<Rightarrow> real option"
  cast_int :: "string \<Rightarrow> 32 word option"
  unix_timestamp :: "'ts \<Rightarrow> int"
  cast_date :: "'ts \<Rightarrow> 'date"

subsection \<open>Ingest and normalize (lines 15--28)\<close>

definition late_delivery_col ::
  "('ts \<Rightarrow> int) \<Rightarrow> string option \<Rightarrow> 'ts option \<Rightarrow> 'ts option \<Rightarrow> 32 word option \<Rightarrow> int option"
where
  \<comment> \<open>lines 20--23, on the parsed columns \<open>status\<close>, \<open>delivered_ts\<close>, \<open>order_ts\<close>, \<open>promised_mins\<close>\<close>
  "late_delivery_col unix st dts ots pm =
     when_otherwise
       (sql_and (sql_eq st (Some ''DELIVERED''))
                (sql_gt (sql_minus (map_option unix dts) (map_option unix ots))
                        (int_to_long (int_times pm (Some 60)))))
       (Some 1) (Some 0)"

definition normalize_row :: "('ts, 'date) engine \<Rightarrow> raw_order \<Rightarrow> ('ts, 'date) order_row" where
  "normalize_row eng r =
     (let ots = Option.bind (raw_order_ts r) (to_timestamp eng);
          dts = Option.bind (raw_delivered_ts r) (to_timestamp eng);
          val = Option.bind (raw_order_value r) (cast_double eng);
          pm = Option.bind (raw_promised_mins r) (cast_int eng)
      in \<lparr> order_ts = ots, delivered_ts = dts, order_value = val, promised_mins = pm,
           status = raw_status r, o_restaurant_id = raw_restaurant_id r,
           o_city = raw_city r, o_other = raw_other r,
           late_delivery = late_delivery_col (unix_timestamp eng) (raw_status r) dts ots pm,
           dt = map_option (cast_date eng) ots \<rparr>)"

definition normalize :: "('ts, 'date) engine \<Rightarrow> raw_order list \<Rightarrow> ('ts, 'date) order_row list" where
  "normalize eng rows = map (normalize_row eng) rows"

subsection \<open>Enrich (lines 33--35)\<close>

type_synonym ('ts, 'date) enriched = "('ts, 'date) order_row \<times> restaurant option"

definition join_matches :: "('ts, 'date) order_row \<Rightarrow> restaurant list \<Rightarrow> restaurant list" where
  \<comment> \<open>the restaurant rows for which \<open>o.restaurant_id == r.restaurant_id\<close> is TRUE\<close>
  "join_matches o_row rs =
     filter (\<lambda>r. sql_eq (o_restaurant_id o_row) (r_restaurant_id r) = Some True) rs"

definition join_one :: "('ts, 'date) order_row \<Rightarrow> restaurant list \<Rightarrow> ('ts, 'date) enriched list" where
  "join_one o_row rs =
     (case join_matches o_row rs of
        [] \<Rightarrow> [(o_row, None)]
      | m # ms \<Rightarrow> map (\<lambda>r. (o_row, Some r)) (m # ms))"

definition left_join :: "('ts, 'date) order_row list \<Rightarrow> restaurant list \<Rightarrow> ('ts, 'date) enriched list" where
  "left_join os rs = concat (map (\<lambda>o_row. join_one o_row rs) os)"


definition e_name :: "('ts, 'date) enriched \<Rightarrow> string option" where
  "e_name e = Option.bind (snd e) r_name"

definition e_cuisine :: "('ts, 'date) enriched \<Rightarrow> string option" where
  "e_cuisine e = Option.bind (snd e) r_cuisine"

subsection \<open>Aggregate (lines 37--47)\<close>

text \<open>
  The aggregate functions keep a buffer that is updated row by row and skip NULL input:
  \<open>sum\<close> starts from NULL, \<open>avg\<close> keeps a running sum and a count of the values seen.
\<close>

fun sum_update :: "'a::plus option \<Rightarrow> 'a option \<Rightarrow> 'a option" where
  "sum_update acc None = acc"
| "sum_update None (Some x) = Some x"
| "sum_update (Some s) (Some x) = Some (s + x)"

definition agg_sum :: "'a::plus option list \<Rightarrow> 'a option" where
  "agg_sum xs = foldl sum_update None xs"

fun avg_update :: "real \<times> nat \<Rightarrow> real option \<Rightarrow> real \<times> nat" where
  "avg_update (s, c) None = (s, c)"
| "avg_update (s, c) (Some x) = (s + x, Suc c)"

definition agg_avg :: "real option list \<Rightarrow> real option" where
  "agg_avg xs = (case foldl avg_update (0, 0) xs of
                   (s, c) \<Rightarrow> if c = 0 then None else Some (s / real c))"

definition agg_count :: "'a list \<Rightarrow> int" where
  \<comment> \<open>\<open>count(lit(1))\<close>: the number of rows\<close>
  "agg_count xs = int (length xs)"

type_synonym 'date group_key =
  "'date option \<times> string option \<times> string option \<times> string option \<times> string option"

record 'date metric =
  m_key :: "'date group_key"
  orders_delivered :: int
  gmv :: "real option"
  avg_delivery_mins :: "real option"
  late_count :: "int option"
  late_rate :: "real option"

definition is_delivered :: "('ts, 'date) enriched \<Rightarrow> bool" where
  \<comment> \<open>\<open>where(col("status") == "DELIVERED")\<close> keeps the rows whose condition is TRUE\<close>
  "is_delivered e = (sql_eq (status (fst e)) (Some ''DELIVERED'') = Some True)"

definition group_key :: "('ts, 'date) enriched \<Rightarrow> 'date group_key" where
  \<comment> \<open>\<open>groupBy("dt", "o.restaurant_id", "r.name", "r.cuisine", "o.city")\<close>\<close>
  "group_key e = (dt (fst e), o_restaurant_id (fst e), e_name e, e_cuisine e, o_city (fst e))"

definition delivery_mins :: "('ts \<Rightarrow> int) \<Rightarrow> ('ts, 'date) enriched \<Rightarrow> real option" where
  \<comment> \<open>\<open>(unix_timestamp("delivered_ts") - unix_timestamp("order_ts")) / 60.0\<close>\<close>
  "delivery_mins unix e =
     double_divide
       (map_option real_of_int
          (sql_minus (map_option unix (delivered_ts (fst e))) (map_option unix (order_ts (fst e)))))
       (Some 60)"

definition agg_group :: "('ts \<Rightarrow> int) \<Rightarrow> 'date group_key \<Rightarrow> ('ts, 'date) enriched list \<Rightarrow> 'date metric" where
  "agg_group unix k g =
     (let n = agg_count g;
          lc = agg_sum (map (\<lambda>e. late_delivery (fst e)) g)
      in \<lparr> m_key = k,
           orders_delivered = n,
           gmv = agg_sum (map (\<lambda>e. order_value (fst e)) g),
           avg_delivery_mins = agg_avg (map (delivery_mins unix) g),
           late_count = lc,
           late_rate = double_divide (map_option real_of_int lc) (Some (real_of_int n)) \<rparr>)"

definition daily_rest_metrics :: "('ts \<Rightarrow> int) \<Rightarrow> ('ts, 'date) enriched list \<Rightarrow> 'date metric list" where
  "daily_rest_metrics unix es =
     (let ds = filter is_delivered es
      in map (\<lambda>k. agg_group unix k (filter (\<lambda>e. group_key e = k) ds))
             (remdups (map group_key ds)))"

subsection \<open>The storage tiers and the stages of a run\<close>

record ('ts, 'date) lake =
  bronze_orders :: "raw_order list"
  bronze_restaurants :: "restaurant list"
  silver_orders :: "('ts, 'date) order_row list"
  silver_restaurants :: "restaurant list"
  gold_daily_restaurant_metrics :: "'date metric list"

definition ingest_normalize :: "('ts, 'date) engine \<Rightarrow> ('ts, 'date) lake \<Rightarrow> ('ts, 'date) lake" where
  \<comment> \<open>lines 12--28; a write in mode \<open>overwrite\<close> replaces the artifact\<close>
  "ingest_normalize eng s =
     s\<lparr> silver_orders := normalize eng (bronze_orders s),
        silver_restaurants := bronze_restaurants s \<rparr>"

definition orders_enriched :: "('ts, 'date) lake \<Rightarrow> ('ts, 'date) enriched list" where
  \<comment> \<open>lines 30--35: the join reads the silver artifacts back\<close>
  "orders_enriched s = left_join (silver_orders s) (silver_restaurants s)"

definition aggregate :: "('ts, 'date) engine \<Rightarrow> ('ts, 'date) lake \<Rightarrow> ('ts, 'date) lake" where
  \<comment> \<open>lines 37--49\<close>
  "aggregate eng s =
     s\<lparr> gold_daily_restaurant_metrics :=
          daily_rest_metrics (unix_timestamp eng) (orders_enriched s) \<rparr>"

definition run :: "('ts, 'date) engine \<Rightarrow> ('ts, 'date) lake \<Rightarrow> ('ts, 'date) lake" where
  "run eng s = aggregate eng (ingest_normalize eng s)"

subsection \<open>A sample engine\<close>

text \<open>
  For evaluating the script on concrete rows: timestamps are whole seconds since the
  epoch, written in decimal digits, and a date is a day number.
\<close>

fun parse_digits :: "nat \<Rightarrow> string \<Rightarrow> nat option" where
  "parse_digits acc [] = Some acc"
| "parse_digits acc (c # cs) =
     (if 48 \<le> (of_char c :: nat) \<and> (of_char c :: nat) \<le> 57
      then parse_digits (10 * acc + (of_char c - 48)) cs else None)"

definition parse_nat :: "string \<Rightarrow> nat option" where
  "parse_nat s = (if s = [] then None else parse_digits 0 s)"

definition epoch_engine :: "(int, int) engine" where
  "epoch_engine =
     \<lparr> to_timestamp = (\<lambda>s. map_option int (parse_nat s)),
       cast_double = (\<lambda>s. map_option real (parse_nat s)),
       cast_int = (\<lambda>s. case parse_nat s of None \<Rightarrow> None
                        | Some n \<Rightarrow> if n < 2 ^ 31 then Some (word_of_nat n) else None),
       unix_timestamp = (\<lambda>t. t),
       cast_date = (\<lambda>t. t div 86400) \<rparr>"

subsection \<open>Sample rows\<close>

text \<open>
  An order placed at 12:00:00 (second 43200 of day 0) with 30 promised minutes, delivered
  at 12:30:00 and at 12:31:00; a cancelled order without a delivery; a delivered order
  whose timestamps do not parse and whose restaurant is unknown; and a delivered order
  with a very long promise.
\<close>

definition order_on_time :: raw_order where
  "order_on_time =
     \<lparr> raw_order_ts = Some ''43200'', raw_delivered_ts = Some ''45000'',
       raw_order_value = Some ''10'', raw_promised_mins = Some ''30'',
       raw_status = Some ''DELIVERED'', raw_restaurant_id = Some ''r1'',
       raw_city = Some ''Pune'', raw_other = [] \<rparr>"

definition order_late :: raw_order where
  "order_late =
     \<lparr> raw_order_ts = Some ''43200'', raw_delivered_ts = Some ''45060'',
       raw_order_value = Some ''20'', raw_promised_mins = Some ''30'',
       raw_status = Some ''DELIVERED'', raw_restaurant_id = Some ''r1'',
       raw_city = Some ''Pune'', raw_other = [] \<rparr>"

definition order_cancelled :: raw_order where
  "order_cancelled =
     \<lparr> raw_order_ts = Some ''43200'', raw_delivered_ts = None,
       raw_order_value = Some ''15'', raw_promised_mins = Some ''0'',
       raw_status = Some ''CANCELLED'', raw_restaurant_id = Some ''r1'',
       raw_city = Some ''Pune'', raw_other = [] \<rparr>"

definition order_unparsed :: raw_order where
  "order_unparsed =
     \<lparr> raw_order_ts = Some ''noon'', raw_delivered_ts = Some ''later'',
       raw_order_value = Some ''7'', raw_promised_mins = Some ''30'',
       raw_status = Some ''DELIVERED'', raw_restaurant_id = Some ''r9'',
       raw_city = Some ''Pune'', raw_other = [] \<rparr>"

definition order_long_promise :: raw_order where
  "order_long_promise =
     \<lparr> raw_order_ts = Some ''0'', raw_delivered_ts = Some ''1800'',
       raw_order_value = Some ''10'', raw_promised_mins = Some ''35791395'',
       raw_status = Some ''DELIVERED'', raw_restaurant_id = Some ''r1'',
       raw_city = Some ''Pune'', raw_other = [] \<rparr>"

definition restaurant_r1 :: restaurant where
  "restaurant_r1 =
     \<lparr> r_restaurant_id = Some ''r1'', r_name = Some ''Dosa Hut'',
       r_cuisine = Some ''Indian'', r_other = [] \<rparr>"


definition sample_lake :: "(int, int) lake" where
  "sample_lake =
     \<lparr> bronze_orders = [order_on_time, order_late, order_cancelled, order_unparsed],
       bronze_restaurants = [restaurant_r1],
       silver_orders = [], silver_restaurants = [], gold_daily_restaurant_metrics = [] \<rparr>"

text \<open>The values of a column that are not NULL.\<close>

fun non_nulls :: "'a option list \<Rightarrow> 'a list" where
  "non_nulls [] = []"
| "non_nulls (None # xs) = non_nulls xs"
| "non_nulls (Some x # xs) = x # non_nulls xs"

section \<open>Properties of the late-delivery flag\<close>

lemma sql_and_True_iff: "sql_and a b = Some True \<longleftrightarrow> a = Some True \<and> b = Some True"
  by (cases "(a, b)" rule: sql_and.cases) auto

lemma sql_eq_True_iff: "sql_eq a b = Some True \<longleftrightarrow> (\<exists>x. a = Some x \<and> b = Some x)"
  by (auto simp: sql_eq_def split: option.splits)

text \<open>
  The flag in closed form: it is 1 exactly when the status is the text DELIVERED, the three
  operands are present and the difference of the seconds exceeds the 32-bit product.
\<close>

lemma late_delivery_col_eq:
  "late_delivery_col unix st dts ots pm =
     (if st = Some ''DELIVERED'' \<and>
         (\<exists>d t p. dts = Some d \<and> ots = Some t \<and> pm = Some p \<and> unix d - unix t > sint (p * 60))
      then Some 1 else Some 0)"
  by (auto simp: late_delivery_col_def when_otherwise_def sql_and_True_iff sql_eq_True_iff
        sql_gt_def sql_minus_def int_to_long_def int_times_def split: option.splits)

lemma normalize_row_simps:
  "order_ts (normalize_row eng r) = Option.bind (raw_order_ts r) (to_timestamp eng)"
  "delivered_ts (normalize_row eng r) = Option.bind (raw_delivered_ts r) (to_timestamp eng)"
  "order_value (normalize_row eng r) = Option.bind (raw_order_value r) (cast_double eng)"
  "promised_mins (normalize_row eng r) = Option.bind (raw_promised_mins r) (cast_int eng)"
  "status (normalize_row eng r) = raw_status r"
  "o_restaurant_id (normalize_row eng r) = raw_restaurant_id r"
  "o_city (normalize_row eng r) = raw_city r"
  "dt (normalize_row eng r) = map_option (cast_date eng) (order_ts (normalize_row eng r))"
  "late_delivery (normalize_row eng r) =
     late_delivery_col (unix_timestamp eng) (status (normalize_row eng r))
       (delivered_ts (normalize_row eng r)) (order_ts (normalize_row eng r))
       (promised_mins (normalize_row eng r))"
  by (simp_all add: normalize_row_def Let_def)

text \<open>
  As long as \<open>promised_mins * 60\<close> fits into a signed 32-bit integer, a delivered order
  with all three operands present is flagged exactly when the elapsed seconds are strictly
  greater than the promised seconds.
\<close>

lemma late_delivery_in_range:
  assumes "raw_status r = Some ''DELIVERED''"
    and "delivered_ts (normalize_row eng r) = Some d"
    and "order_ts (normalize_row eng r) = Some t"
    and "promised_mins (normalize_row eng r) = Some p"
    and "- (2 ^ 31) \<le> sint p * 60" and "sint p * 60 < 2 ^ 31"
  shows "late_delivery (normalize_row eng r) =
           (if unix_timestamp eng d - unix_timestamp eng t > sint p * 60 then Some 1 else Some 0)"
proof -
  have "sint (p * 60) = signed_take_bit 31 (sint p * sint (60 :: 32 word))"
    by (simp add: sint_word_mult)
  also have "\<dots> = sint p * 60"
    using assms(5,6) by (simp add: signed_take_bit_int_eq_self)
  finally have "sint (p * 60) = sint p * 60" .
  then show ?thesis using assms(1-4) by (simp add: normalize_row_simps late_delivery_col_eq)
qed

lemma late_delivery_spec_examples:
  "late_delivery (normalize_row epoch_engine order_late) = Some 1"
  "late_delivery (normalize_row epoch_engine order_on_time) = Some 0"
  by (simp_all add: normalize_row_simps late_delivery_col_eq order_late_def order_on_time_def
        epoch_engine_def parse_nat_def)

text \<open>
  Claim C1. A delivered order whose timestamps and promised minutes all parsed should be
  flagged late exactly when the elapsed seconds exceed \<open>promised_mins \<times> 60\<close>. The
  product is computed in 32 bits: for 35791395 promised minutes it wraps to a negative
  number, and an order delivered after 1800 seconds is flagged late although 1800 is far
  below 35791395 \<times> 60.
\<close>

theorem late_delivery_wraps_at_long_promise:
  "late_delivery (normalize_row epoch_engine order_long_promise) = Some 1 \<and>
   raw_status order_long_promise = Some ''DELIVERED'' \<and>
   order_ts (normalize_row epoch_engine order_long_promise) = Some 0 \<and>
   delivered_ts (normalize_row epoch_engine order_long_promise) = Some 1800 \<and>
   promised_mins (normalize_row epoch_engine order_long_promise) = Some 35791395 \<and>
   \<not> ((1800::int) - 0 > 35791395 * 60)"
  by (simp add: normalize_row_simps late_delivery_col_eq order_long_promise_def epoch_engine_def
        parse_nat_def)

text \<open>
  Claim C2. An order whose status is not DELIVERED (a missing status included) gets
  \<open>late_delivery = 0\<close>, whatever its delivered timestamp and promised minutes are; the
  result is a value, never NULL.
\<close>

theorem late_delivery_not_delivered:
  "raw_status r \<noteq> Some ''DELIVERED'' \<Longrightarrow> late_delivery (normalize_row eng r) = Some 0"
  by (simp add: normalize_row_simps late_delivery_col_eq)

theorem late_delivery_not_delivered_witness:
  "raw_status order_cancelled \<noteq> Some ''DELIVERED'' \<and>
   delivered_ts (normalize_row epoch_engine order_cancelled) = None \<and>
   late_delivery (normalize_row epoch_engine order_cancelled) = Some 0"
  using late_delivery_not_delivered [of order_cancelled epoch_engine]
  by (simp add: order_cancelled_def normalize_row_simps)

text \<open>
  Claim C9. The flag is total with values 0 and 1 only, and a delivered order with a NULL
  delivered timestamp, order timestamp or promised minutes gets 0: the NULL comparison
  falls through to the otherwise-branch.
\<close>

theorem late_delivery_null_operand:
  "late_delivery (normalize_row eng r) \<in> {Some 0, Some 1} \<and>
   (raw_status r = Some ''DELIVERED'' \<and>
      (delivered_ts (normalize_row eng r) = None \<or> order_ts (normalize_row eng r) = None \<or>
       promised_mins (normalize_row eng r) = None)
    \<longrightarrow> late_delivery (normalize_row eng r) = Some 0)"
  by (auto simp: normalize_row_simps late_delivery_col_eq)

theorem late_delivery_null_operand_witness:
  "raw_status order_unparsed = Some ''DELIVERED'' \<and>
   delivered_ts (normalize_row epoch_engine order_unparsed) = None \<and>
   late_delivery (normalize_row epoch_engine order_unparsed) = Some 0"
  using late_delivery_null_operand [of epoch_engine order_unparsed]
  by (simp add: order_unparsed_def normalize_row_simps epoch_engine_def parse_nat_def)

section \<open>Properties of the normalize stage\<close>



text \<open>
  Claim C8. Running the normalize stage a second time changes nothing, and the silver
  artifacts it writes depend on the raw inputs only, not on what the artifacts held before:
  the write replaces them.
\<close>

theorem ingest_normalize_idempotent:
  "ingest_normalize eng (ingest_normalize eng s) = ingest_normalize eng s \<and>
   (bronze_orders s = bronze_orders s' \<and> bronze_restaurants s = bronze_restaurants s' \<longrightarrow>
      silver_orders (ingest_normalize eng s) = silver_orders (ingest_normalize eng s') \<and>
      silver_restaurants (ingest_normalize eng s) = silver_restaurants (ingest_normalize eng s'))"
  by (simp add: ingest_normalize_def)

theorem ingest_normalize_idempotent_witness:
  "bronze_orders sample_lake = bronze_orders (ingest_normalize epoch_engine sample_lake) \<and>
   bronze_restaurants sample_lake = bronze_restaurants (ingest_normalize epoch_engine sample_lake) \<and>
   silver_orders sample_lake \<noteq> silver_orders (ingest_normalize epoch_engine sample_lake) \<and>
   silver_orders (ingest_normalize epoch_engine sample_lake) =
     silver_orders (ingest_normalize epoch_engine (ingest_normalize epoch_engine sample_lake))"
  using ingest_normalize_idempotent [of epoch_engine sample_lake
          "ingest_normalize epoch_engine sample_lake"]
  by (simp add: ingest_normalize_def sample_lake_def normalize_def)

section \<open>Properties of the enrichment join\<close>










end
